theory Spec2Isabelle
  imports Main
begin

section \<open>The Temporal provider: provider configuration and the namespace resource\<close>

text \<open>
  The development embeds \<^verbatim>\<open>internal/provider/provider.go\<close> and
  \<^verbatim>\<open>internal/provider/namespace_resource.go\<close>. Both files are handlers that the
  plugin framework calls with a request and a response to fill in; a handler is modelled as a
  function from the request and the response it is given to the response it leaves behind.
  The context argument and the \<^verbatim>\<open>tflog\<close> calls have no effect on requests or
  responses and are left out.
\<close>

subsection \<open>Framework values: strings with null and unknown, diagnostics\<close>

text \<open>
  \<^verbatim>\<open>types.String\<close> is a string that may also be null or unknown;
  \<^verbatim>\<open>ValueString\<close> yields the empty string in both of those cases.
\<close>

datatype tf_String = StringNull | StringUnknown | StringValue string

fun IsNull :: "tf_String \<Rightarrow> bool" where
  "IsNull StringNull = True"
| "IsNull StringUnknown = False"
| "IsNull (StringValue s) = False"

fun IsUnknown :: "tf_String \<Rightarrow> bool" where
  "IsUnknown StringNull = False"
| "IsUnknown StringUnknown = True"
| "IsUnknown (StringValue s) = False"

fun ValueString :: "tf_String \<Rightarrow> string" where
  "ValueString StringNull = []"
| "ValueString StringUnknown = []"
| "ValueString (StringValue s) = s"

text \<open>
  A diagnostic has a severity, a summary and a detail, and an attribute path when it is
  attribute-scoped (\<^verbatim>\<open>path.Root("host")\<close> is \<open>Some ''host''\<close>).
\<close>

datatype Severity = SeverityError | SeverityWarning

record Diagnostic =
  Severity :: Severity
  Path :: "string option"
  Summary :: string
  Detail :: string

type_synonym Diagnostics = "Diagnostic list"

definition HasError :: "Diagnostics \<Rightarrow> bool" where
  "HasError ds = list_ex (\<lambda>d. Severity d = SeverityError) ds"

text \<open>
  \<^verbatim>\<open>Diagnostics.Append\<close> of the framework adds the diagnostics it is given in order
  and skips one that the collection already contains; \<^verbatim>\<open>AddError\<close> and
  \<^verbatim>\<open>AddAttributeError\<close> build one error diagnostic and append it the same way.
\<close>

fun Append :: "Diagnostics \<Rightarrow> Diagnostics \<Rightarrow> Diagnostics" where
  "Append ds [] = ds"
| "Append ds (d # rest) = Append (if d \<in> set ds then ds else ds @ [d]) rest"

definition NewErrorDiagnostic :: "string \<Rightarrow> string \<Rightarrow> Diagnostic" where
  "NewErrorDiagnostic summary detail =
     \<lparr>Severity = SeverityError, Path = None, Summary = summary, Detail = detail\<rparr>"

definition NewAttributeErrorDiagnostic :: "string \<Rightarrow> string \<Rightarrow> string \<Rightarrow> Diagnostic" where
  "NewAttributeErrorDiagnostic p summary detail =
     \<lparr>Severity = SeverityError, Path = Some p, Summary = summary, Detail = detail\<rparr>"

definition AddError :: "Diagnostics \<Rightarrow> string \<Rightarrow> string \<Rightarrow> Diagnostics" where
  "AddError ds summary detail = Append ds [NewErrorDiagnostic summary detail]"

definition AddAttributeError :: "Diagnostics \<Rightarrow> string \<Rightarrow> string \<Rightarrow> string \<Rightarrow> Diagnostics" where
  "AddAttributeError ds p summary detail = Append ds [NewAttributeErrorDiagnostic p summary detail]"

subsection \<open>The namespace resource\<close>

text \<open>
  Every response of the framework carries the diagnostics collected so far; the responses
  with further fields extend this record.
  \<^verbatim>\<open>NamespaceResource\<close> holds one field, the client pointer, \<open>None\<close> while it is nil.
  \<^verbatim>\<open>ProviderData\<close> is a value of interface type: \<open>None\<close> is the nil interface,
  \<open>HttpClientPtr c\<close> a \<^verbatim>\<open>*http.Client\<close> (possibly a nil pointer), and
  \<open>OtherType t\<close> a value of any other dynamic type, \<open>t\<close> being the name that
  \<^verbatim>\<open>%T\<close> prints for it.
\<close>

record 'c NamespaceResource =
  client :: "'c option"

datatype 'c any = HttpClientPtr "'c option" | OtherType string

record 'c resource_ConfigureRequest =
  ProviderData :: "'c any option"

record Response =
  Diagnostics :: Diagnostics

type_synonym resource_ConfigureResponse = Response

definition NamespaceResource_Configure ::
  "'c NamespaceResource \<Rightarrow> 'c resource_ConfigureRequest \<Rightarrow> resource_ConfigureResponse
     \<Rightarrow> 'c NamespaceResource \<times> resource_ConfigureResponse" where
  "NamespaceResource_Configure r req resp =
     (case ProviderData req of
        None \<Rightarrow> (r, resp)
      | Some (HttpClientPtr c) \<Rightarrow> (r\<lparr>client := c\<rparr>, resp)
      | Some (OtherType t) \<Rightarrow>
          (r, resp\<lparr>Diagnostics := AddError (Diagnostics resp)
                ''Unexpected Resource Configure Type''
                (''Expected *http.Client, got: '' @ t @
                 ''. Please report this issue to the provider developers.'')\<rparr>))"

text \<open>
  The handlers of the resource read the plan or the prior state into a model struct with
  \<^verbatim>\<open>Get\<close> and write a model struct to the response's state with \<^verbatim>\<open>Set\<close>.
  Both are the framework's: they convert between its raw value and the struct and may return
  diagnostics. They are parameters here, for every raw representation \<open>'raw\<close>: \<open>Get fw v\<close>
  is the diagnostics and the struct that reading \<open>v\<close> yields, and \<open>Set fw v m\<close> the diagnostics
  and the raw value that writing \<open>m\<close> over \<open>v\<close> yields.
\<close>

record ('raw, 'm) tfsdk =
  Get :: "'raw \<Rightarrow> Diagnostics \<times> 'm"
  Set :: "'raw \<Rightarrow> 'm \<Rightarrow> Diagnostics \<times> 'raw"

text \<open>
  The handlers declare their data as \<^verbatim>\<open>ExampleResourceModel\<close>, a struct whose
  declaration is not among the sources. The one field the handlers touch is \<^verbatim>\<open>Id\<close>, a
  \<^verbatim>\<open>types.String\<close>; the record has that field and the handlers are defined on every
  extension of it, so that they are defined whatever further fields the struct has.
  \<^verbatim>\<open>NamespaceResourceModel\<close>, the model struct that the sources do declare, has an
  \<^verbatim>\<open>Id\<close> and two further strings; it is given as one such extension.
\<close>

record ExampleResourceModel =
  Id :: tf_String

record NamespaceResourceModel = ExampleResourceModel +
  ConfigurableAttribute :: tf_String
  Defaulted :: tf_String

text \<open>
  Requests carry the plan (\<^verbatim>\<open>CreateRequest\<close>, \<^verbatim>\<open>UpdateRequest\<close>) or the prior state
  (\<^verbatim>\<open>ReadRequest\<close>, \<^verbatim>\<open>DeleteRequest\<close>, field \<^verbatim>\<open>State\<close> in the source); the responses
  of Create, Read, Update and ImportState carry the state to be stored, the response of Delete
  only diagnostics.
\<close>

record 'raw PlanRequest =
  Plan :: 'raw

record 'raw StateRequest =
  ReqState :: 'raw

record 'raw StateResponse = Response +
  State :: 'raw

record ImportStateRequest =
  ID :: string

text \<open>
  A remote call of a handler would be a request sent with \<^verbatim>\<open>r.client.Do\<close>. Every handler
  returns, next to the response, the list of the requests it sends through the client, in order.
  In the source each of these calls is inside a comment, so no handler sends any.
\<close>

type_synonym httpReq = string

definition NamespaceResource_Create ::
  "('raw, 'a ExampleResourceModel_scheme) tfsdk \<Rightarrow> 'c NamespaceResource \<Rightarrow> 'raw PlanRequest
     \<Rightarrow> 'raw StateResponse \<Rightarrow> 'raw StateResponse \<times> httpReq list" where
  "NamespaceResource_Create fw r req resp =
     (let (diags, data) = Get fw (Plan req);
          resp1 = resp\<lparr>Diagnostics := Append (Diagnostics resp) diags\<rparr>
      in if HasError (Diagnostics resp1) then (resp1, [])
         else
           let data1 = data\<lparr>Id := StringValue ''example-id''\<rparr>;
               (diags2, state2) = Set fw (State resp1) data1
           in (resp1\<lparr>State := state2,
                      Diagnostics := Append (Diagnostics resp1) diags2\<rparr>, []))"

definition NamespaceResource_Read ::
  "('raw, 'a ExampleResourceModel_scheme) tfsdk \<Rightarrow> 'c NamespaceResource \<Rightarrow> 'raw StateRequest
     \<Rightarrow> 'raw StateResponse \<Rightarrow> 'raw StateResponse \<times> httpReq list" where
  "NamespaceResource_Read fw r req resp =
     (let (diags, data) = Get fw (ReqState req);
          resp1 = resp\<lparr>Diagnostics := Append (Diagnostics resp) diags\<rparr>
      in if HasError (Diagnostics resp1) then (resp1, [])
         else
           let (diags2, state2) = Set fw (State resp1) data
           in (resp1\<lparr>State := state2,
                      Diagnostics := Append (Diagnostics resp1) diags2\<rparr>, []))"

definition NamespaceResource_Update ::
  "('raw, 'a ExampleResourceModel_scheme) tfsdk \<Rightarrow> 'c NamespaceResource \<Rightarrow> 'raw PlanRequest
     \<Rightarrow> 'raw StateResponse \<Rightarrow> 'raw StateResponse \<times> httpReq list" where
  "NamespaceResource_Update fw r req resp =
     (let (diags, data) = Get fw (Plan req);
          resp1 = resp\<lparr>Diagnostics := Append (Diagnostics resp) diags\<rparr>
      in if HasError (Diagnostics resp1) then (resp1, [])
         else
           let (diags2, state2) = Set fw (State resp1) data
           in (resp1\<lparr>State := state2,
                      Diagnostics := Append (Diagnostics resp1) diags2\<rparr>, []))"

definition NamespaceResource_Delete ::
  "('raw, 'a ExampleResourceModel_scheme) tfsdk \<Rightarrow> 'c NamespaceResource \<Rightarrow> 'raw StateRequest
     \<Rightarrow> Response \<Rightarrow> Response \<times> httpReq list" where
  "NamespaceResource_Delete fw r req resp =
     (let (diags, data) = Get fw (ReqState req);
          resp1 = resp\<lparr>Diagnostics := Append (Diagnostics resp) diags\<rparr>
      in if HasError (Diagnostics resp1) then (resp1, [])
         else (resp1, []))"

text \<open>
  \<^verbatim>\<open>ImportState\<close> is one call of the framework's \<^verbatim>\<open>ImportStatePassthroughID\<close> with the
  path \<^verbatim>\<open>path.Root("id")\<close>, the request and the response. That function is a parameter;
  it is not given the resource, so it sends nothing through the resource's client.
\<close>

definition NamespaceResource_ImportState ::
  "(string \<Rightarrow> ImportStateRequest \<Rightarrow> 'raw StateResponse \<Rightarrow> 'raw StateResponse)
     \<Rightarrow> 'c NamespaceResource \<Rightarrow> ImportStateRequest \<Rightarrow> 'raw StateResponse
     \<Rightarrow> 'raw StateResponse \<times> httpReq list" where
  "NamespaceResource_ImportState ImportStatePassthroughID r req resp =
     (ImportStatePassthroughID ''id'' req resp, [])"

subsection \<open>The schema of the namespace resource\<close>

text \<open>
  An attribute of the schema has a type, a description and the three flags
  \<^verbatim>\<open>Required\<close>, \<^verbatim>\<open>Optional\<close> and \<^verbatim>\<open>Computed\<close>, each false unless the literal
  sets it. The four attribute kinds of the source fix the type; a list attribute names its
  element type. The attributes are a Go map literal, given as the list of its entries in the
  order of the source and looked up by name.
\<close>

datatype attr_Type = StringType | BoolType | NumberType | ListType attr_Type

record Attribute =
  AttrType :: attr_Type
  MarkdownDescription :: string
  Required :: bool
  Optional :: bool
  Computed :: bool

definition StringAttribute :: "string \<Rightarrow> bool \<Rightarrow> bool \<Rightarrow> bool \<Rightarrow> Attribute" where
  "StringAttribute md rq op cp =
     \<lparr>AttrType = StringType, MarkdownDescription = md,
      Required = rq, Optional = op, Computed = cp\<rparr>"

definition BoolAttribute :: "string \<Rightarrow> bool \<Rightarrow> bool \<Rightarrow> bool \<Rightarrow> Attribute" where
  "BoolAttribute md rq op cp =
     \<lparr>AttrType = BoolType, MarkdownDescription = md,
      Required = rq, Optional = op, Computed = cp\<rparr>"

definition NumberAttribute :: "string \<Rightarrow> bool \<Rightarrow> bool \<Rightarrow> bool \<Rightarrow> Attribute" where
  "NumberAttribute md rq op cp =
     \<lparr>AttrType = NumberType, MarkdownDescription = md,
      Required = rq, Optional = op, Computed = cp\<rparr>"

definition ListAttribute :: "string \<Rightarrow> attr_Type \<Rightarrow> bool \<Rightarrow> bool \<Rightarrow> bool \<Rightarrow> Attribute" where
  "ListAttribute md elem rq op cp =
     \<lparr>AttrType = ListType elem, MarkdownDescription = md,
      Required = rq, Optional = op, Computed = cp\<rparr>"

record Schema =
  Schema_MarkdownDescription :: string
  Attributes :: "(string \<times> Attribute) list"

definition NamespaceResource_Schema :: Schema where
  "NamespaceResource_Schema =
     \<lparr>Schema_MarkdownDescription = ''Temporal Namespace resource'',
      Attributes =
        [(''name'', StringAttribute ''Namespace name'' True False False),
         (''id'', StringAttribute ''Namespace identifier'' False False True),
         (''description'', StringAttribute ''Namespace Description'' False True True),
         (''owner_email'', StringAttribute ''Namespace Owner Email'' False True True),
         (''state'', StringAttribute ''State of Namespace'' False False True),
         (''active_cluster_name'', StringAttribute ''Active Cluster Name'' False False True),
         (''clusters'', ListAttribute ''Temporal Clusters'' StringType False False True),
         (''history_archival_state'',
            StringAttribute ''History Archival State'' False False True),
         (''visibility_archival_state'',
            StringAttribute ''Visibility Archival State'' False False True),
         (''is_global_namespace'', BoolAttribute ''Namespace is Global'' False False True),
         (''failover_version'', NumberAttribute ''Failover Version'' False False True),
         (''failover_history'',
            ListAttribute ''Failover History'' StringType False False True)]\<rparr>"

text \<open>
  The attributes of one group, as pairs of name and type: the required ones, the optional
  ones, and the ones that are computed and neither required nor optional.
\<close>

definition attributes_where :: "(Attribute \<Rightarrow> bool) \<Rightarrow> Schema \<Rightarrow> (string \<times> attr_Type) list" where
  "attributes_where P sch = map (\<lambda>(k, a). (k, AttrType a)) (filter (\<lambda>(k, a). P a) (Attributes sch))"

definition required_inputs :: "Schema \<Rightarrow> (string \<times> attr_Type) list" where
  "required_inputs = attributes_where Required"

definition optional_inputs :: "Schema \<Rightarrow> (string \<times> attr_Type) list" where
  "optional_inputs = attributes_where Optional"

definition computed_only_outputs :: "Schema \<Rightarrow> (string \<times> attr_Type) list" where
  "computed_only_outputs =
     attributes_where (\<lambda>a. Computed a \<and> \<not> Required a \<and> \<not> Optional a)"

subsection \<open>Configuration of the provider\<close>

text \<open>
  \<^verbatim>\<open>temporalProviderModel\<close> is the configuration struct. The environment is a map from
  variable names to values, and \<^verbatim>\<open>os.Getenv\<close> yields the empty string for a variable
  that is not set. \<^verbatim>\<open>grpc.Dial\<close> is a parameter: for an endpoint it yields a client
  connection (\<open>Inr\<close>) or the text of an error (\<open>Inl\<close>). Reading the configuration into the
  struct is the framework's \<^verbatim>\<open>Get\<close>, a parameter as for the resource.
\<close>

record temporalProviderModel =
  Host :: tf_String
  Port :: tf_String

record 'raw provider_ConfigureRequest =
  Config :: 'raw

record 'g provider_ConfigureResponse = Response +
  DataSourceData :: "'g option"
  ResourceData :: "'g option"

definition Getenv :: "(string \<rightharpoonup> string) \<Rightarrow> string \<Rightarrow> string" where
  "Getenv env k = (case env k of None \<Rightarrow> [] | Some v \<Rightarrow> v)"

definition UnknownHostDiagnostic :: Diagnostic where
  "UnknownHostDiagnostic = NewAttributeErrorDiagnostic ''host''
     ''Unknown Tmeporal Frontend Host''
     (''The provider cannot create the Temporal API client as there is an unknown configuration value for the Temporal API host. '' @
      ''Either target apply the source of the value first, set the value statically in the configuration, or use the TEMPORAL_HOST environment variable.'')"

definition UnknownPortDiagnostic :: Diagnostic where
  "UnknownPortDiagnostic = NewAttributeErrorDiagnostic ''port''
     ''Unknown Temporal Frontend Port''
     (''The provider cannot create the Temporal API client as there is an unknown configuration value for the Temporal API port. '' @
      ''Either target apply the source of the value first, set the value statically in the configuration, or use the TEMPORAL_PORT environment variable.'')"

definition MissingHostDiagnostic :: Diagnostic where
  "MissingHostDiagnostic = NewAttributeErrorDiagnostic ''host''
     ''Missing Temporal Frontend Host''
     (''The provider cannot create the Temporal API client as there is a missing or empty value for the Temporal Frontend host. '' @
      ''Set the host value in the configuration or use the TEMPORAL_HOST environment variable. '' @
      ''If either is already set, ensure the value is not empty.'')"

definition MissingPortDiagnostic :: Diagnostic where
  "MissingPortDiagnostic = NewAttributeErrorDiagnostic ''port''
     ''Missing Temporal Frontend Port''
     (''The provider cannot create the Temporal API client as there is a missing or empty value for the Temporal Frontend port. '' @
      ''Set the username value in the configuration or use the TEMPORAL_PORT environment variable. '' @
      ''If either is already set, ensure the value is not empty.'')"

definition DialErrorDiagnostic :: "string \<Rightarrow> Diagnostic" where
  "DialErrorDiagnostic err = NewErrorDiagnostic
     ''Unable to Create Temporal API Client''
     (''An unexpected error occurred when creating the Temporal API client. '' @
      ''If the error is not clear, please contact the provider developers.'' @ [CHR 0x0A, CHR 0x0A] @
      ''Temporal Client Error: '' @ err)"

text \<open>
  The host and the port that the handler goes on with: the environment variable, overridden
  by the configuration value when that is not null.
\<close>

definition resolve :: "(string \<rightharpoonup> string) \<Rightarrow> string \<Rightarrow> tf_String \<Rightarrow> string" where
  "resolve env var v = (let s = Getenv env var in if \<not> IsNull v then ValueString v else s)"

definition TemporalProvider_Configure ::
  "(string \<rightharpoonup> string) \<Rightarrow> (string \<Rightarrow> string + 'g) \<Rightarrow> ('raw \<Rightarrow> Diagnostics \<times> temporalProviderModel)
     \<Rightarrow> 'raw provider_ConfigureRequest \<Rightarrow> 'g provider_ConfigureResponse
     \<Rightarrow> 'g provider_ConfigureResponse" where
  "TemporalProvider_Configure env Dial ConfigGet req resp =
     (let (diags, config) = ConfigGet (Config req);
          resp1 = resp\<lparr>Diagnostics := Append (Diagnostics resp) diags\<rparr>
      in if HasError (Diagnostics resp1) then resp1
         else
           let resp2 = (if IsUnknown (Host config)
                        then resp1\<lparr>Diagnostics := Append (Diagnostics resp1) [UnknownHostDiagnostic]\<rparr>
                        else resp1);
               resp3 = (if IsUnknown (Port config)
                        then resp2\<lparr>Diagnostics := Append (Diagnostics resp2) [UnknownPortDiagnostic]\<rparr>
                        else resp2)
           in if HasError (Diagnostics resp3) then resp3
              else
                let host = resolve env ''TEMPORAL_HOST'' (Host config);
                    port = resolve env ''TEMPORAL_PORT'' (Port config);
                    resp4 = (if host = []
                             then resp3\<lparr>Diagnostics := Append (Diagnostics resp3) [MissingHostDiagnostic]\<rparr>
                             else resp3);
                    resp5 = (if port = []
                             then resp4\<lparr>Diagnostics := Append (Diagnostics resp4) [MissingPortDiagnostic]\<rparr>
                             else resp4)
                in if HasError (Diagnostics resp5) then resp5
                   else
                     let endpoint = host @ '':'' @ port
                     in case Dial endpoint of
                          Inl err \<Rightarrow>
                            resp5\<lparr>Diagnostics := Append (Diagnostics resp5) [DialErrorDiagnostic err]\<rparr>
                        | Inr conn \<Rightarrow>
                            resp5\<lparr>DataSourceData := Some conn, ResourceData := Some conn\<rparr>)"

subsection \<open>An instance of the framework for the examples\<close>

text \<open>
  The examples below run the handlers on concrete input. They use the instance of the
  framework in which the raw value is the struct itself, \<open>None\<close> being a null value: reading
  a null value reports an error, writing never does. Its pass-through import stores the
  identifier of the request in the attribute \<^verbatim>\<open>id\<close> of the state, all other attributes
  being null in a state that was null.
\<close>

definition null_model :: NamespaceResourceModel where
  "null_model = \<lparr>Id = StringNull, ConfigurableAttribute = StringNull, Defaulted = StringNull\<rparr>"

definition direct_tfsdk :: "(NamespaceResourceModel option, NamespaceResourceModel) tfsdk" where
  "direct_tfsdk =
     \<lparr>Get = (\<lambda>v. case v of
                   None \<Rightarrow> ([NewErrorDiagnostic ''Value Conversion Error'' ''null value''], null_model)
                 | Some m \<Rightarrow> ([], m)),
      Set = (\<lambda>v m. ([], Some m))\<rparr>"

definition direct_ImportStatePassthroughID ::
  "string \<Rightarrow> ImportStateRequest \<Rightarrow> NamespaceResourceModel option StateResponse
     \<Rightarrow> NamespaceResourceModel option StateResponse" where
  "direct_ImportStatePassthroughID p req resp =
     (if p = ''id''
      then resp\<lparr>State := Some ((case State resp of None \<Rightarrow> null_model | Some m \<Rightarrow> m)
                                \<lparr>Id := StringValue (ID req)\<rparr>)\<rparr>
      else resp\<lparr>Diagnostics := AddError (Diagnostics resp) ''Invalid Path'' p\<rparr>)"

section \<open>Properties\<close>

subsection \<open>Diagnostics\<close>

lemma HasError_Nil [simp]: "\<not> HasError []"
  by (simp add: HasError_def)

lemma HasError_Cons [simp]: "HasError (d # ds) = (Severity d = SeverityError \<or> HasError ds)"
  by (simp add: HasError_def)

lemma HasError_append: "HasError (ds @ es) = (HasError ds \<or> HasError es)"
  by (induction ds) auto

lemma set_Append: "set (Append ds es) = set ds \<union> set es"
  by (induction ds es rule: Append.induct) auto

lemma HasError_Append: "HasError (Append ds es) = (HasError ds \<or> HasError es)"
  by (auto simp: HasError_def list_ex_iff set_Append)

lemma error_notin:
  "\<not> HasError ds \<Longrightarrow> Severity d = SeverityError \<Longrightarrow> d \<notin> set ds"
  by (auto simp: HasError_def list_ex_iff)

lemma Severity_provider_diagnostics [simp]:
  "Severity UnknownHostDiagnostic = SeverityError"
  "Severity UnknownPortDiagnostic = SeverityError"
  "Severity MissingHostDiagnostic = SeverityError"
  "Severity MissingPortDiagnostic = SeverityError"
  "Severity (DialErrorDiagnostic e) = SeverityError"
  by (simp_all add: UnknownHostDiagnostic_def UnknownPortDiagnostic_def
      MissingHostDiagnostic_def MissingPortDiagnostic_def DialErrorDiagnostic_def
      NewAttributeErrorDiagnostic_def NewErrorDiagnostic_def)

lemma Path_provider_diagnostics [simp]:
  "Path UnknownHostDiagnostic = Some ''host''"
  "Path UnknownPortDiagnostic = Some ''port''"
  "Path MissingHostDiagnostic = Some ''host''"
  "Path MissingPortDiagnostic = Some ''port''"
  by (simp_all add: UnknownHostDiagnostic_def UnknownPortDiagnostic_def
      MissingHostDiagnostic_def MissingPortDiagnostic_def NewAttributeErrorDiagnostic_def)

lemma Summary_provider_diagnostics:
  "Summary UnknownHostDiagnostic = ''Unknown Tmeporal Frontend Host''"
  "Summary UnknownPortDiagnostic = ''Unknown Temporal Frontend Port''"
  "Summary MissingHostDiagnostic = ''Missing Temporal Frontend Host''"
  "Summary MissingPortDiagnostic = ''Missing Temporal Frontend Port''"
  by (simp_all add: UnknownHostDiagnostic_def UnknownPortDiagnostic_def
      MissingHostDiagnostic_def MissingPortDiagnostic_def NewAttributeErrorDiagnostic_def)

lemma Unknown_host_port_distinct: "UnknownHostDiagnostic \<noteq> UnknownPortDiagnostic"
proof
  assume "UnknownHostDiagnostic = UnknownPortDiagnostic"
  then have "Path UnknownHostDiagnostic = Path UnknownPortDiagnostic" by simp
  then show False by simp
qed


lemma Unknown_Missing_host_distinct: "UnknownHostDiagnostic \<noteq> MissingHostDiagnostic"
proof
  assume "UnknownHostDiagnostic = MissingHostDiagnostic"
  then have "Summary UnknownHostDiagnostic = Summary MissingHostDiagnostic" by simp
  then show False by (simp add: Summary_provider_diagnostics)
qed

lemma Unknown_Missing_port_distinct: "UnknownPortDiagnostic \<noteq> MissingPortDiagnostic"
proof
  assume "UnknownPortDiagnostic = MissingPortDiagnostic"
  then have "Summary UnknownPortDiagnostic = Summary MissingPortDiagnostic" by simp
  then show False by (simp add: Summary_provider_diagnostics)
qed


subsection \<open>Configuration of the namespace resource\<close>

text \<open>
  Claim C9. Configuring the resource with absent provider data (a nil \<^verbatim>\<open>ProviderData\<close>)
  returns the resource and the response as they were: no diagnostic, no client. Provider data
  of any type other than \<^verbatim>\<open>*http.Client\<close> leaves the client as it was and adds one
  error diagnostic, which names the type found; the response is taken not to hold that very
  diagnostic already, since the framework does not add a diagnostic twice.
\<close>

theorem Resource_Configure_nil_or_other_type:
  "(ProviderData req = None \<longrightarrow> NamespaceResource_Configure r req resp = (r, resp)) \<and>
   (ProviderData req = Some (OtherType t) \<longrightarrow>
      d = NewErrorDiagnostic ''Unexpected Resource Configure Type''
            (''Expected *http.Client, got: '' @ t @
             ''. Please report this issue to the provider developers.'') \<longrightarrow>
      d \<notin> set (Diagnostics resp) \<longrightarrow>
      NamespaceResource_Configure r req resp = (r, resp\<lparr>Diagnostics := Diagnostics resp @ [d]\<rparr>)
      \<and> Severity d = SeverityError)"
  by (simp add: NamespaceResource_Configure_def AddError_def NewErrorDiagnostic_def)

theorem Resource_Configure_nil_or_other_type_witness:
  "NamespaceResource_Configure \<lparr>client = None :: unit option\<rparr> \<lparr>ProviderData = None\<rparr>
       \<lparr>Diagnostics = []\<rparr>
     = (\<lparr>client = None\<rparr>, \<lparr>Diagnostics = []\<rparr>) \<and>
   NamespaceResource_Configure \<lparr>client = None :: unit option\<rparr>
       \<lparr>ProviderData = Some (OtherType ''*grpc.ClientConn'')\<rparr> \<lparr>Diagnostics = []\<rparr>
     = (\<lparr>client = None\<rparr>,
        \<lparr>Diagnostics = [\<lparr>Severity = SeverityError, Path = None,
            Summary = ''Unexpected Resource Configure Type'',
            Detail = ''Expected *http.Client, got: *grpc.ClientConn. Please report this issue to the provider developers.''\<rparr>]\<rparr>)"
  using Resource_Configure_nil_or_other_type
          [where req = "\<lparr>ProviderData = None\<rparr>" and r = "\<lparr>client = None :: unit option\<rparr>"
             and resp = "\<lparr>Diagnostics = []\<rparr>"]
        Resource_Configure_nil_or_other_type
          [where req = "\<lparr>ProviderData = Some (OtherType ''*grpc.ClientConn'')\<rparr>"
             and t = "''*grpc.ClientConn''"
             and d = "NewErrorDiagnostic ''Unexpected Resource Configure Type''
                        (''Expected *http.Client, got: '' @ ''*grpc.ClientConn'' @
                         ''. Please report this issue to the provider developers.'')"
             and resp = "\<lparr>Diagnostics = []\<rparr>" and r = "\<lparr>client = None :: unit option\<rparr>"]
  by (simp add: NewErrorDiagnostic_def)

subsection \<open>The handlers of the namespace resource\<close>

lemma Read_sends_nothing: "snd (NamespaceResource_Read fw r req resp) = []"
  by (simp add: NamespaceResource_Read_def Let_def split: prod.splits)

text \<open>
  Claim C1, as amended. For every Create whose plan is read without error, the handler sends
  no remote request. It writes to the state the data of the plan with \<^verbatim>\<open>Id\<close> replaced by
  the literal \<^verbatim>\<open>"example-id"\<close>, every other field as the plan has it, and appends the
  diagnostics of reading and of writing.
\<close>

theorem Create_writes_placeholder_id:
  assumes "Get fw (Plan req) = (diags, data)"
    and "\<not> HasError (Append (Diagnostics resp) diags)"
    and "Set fw (State resp) (data\<lparr>Id := StringValue ''example-id''\<rparr>) = (set_diags, new_state)"
  shows "NamespaceResource_Create fw r req resp =
           (resp\<lparr>Diagnostics := Append (Append (Diagnostics resp) diags) set_diags,
                  State := new_state\<rparr>, [])"
  using assms by (simp add: NamespaceResource_Create_def Let_def)

theorem Create_writes_placeholder_id_witness:
  "NamespaceResource_Create direct_tfsdk \<lparr>client = Some ()\<rparr>
       \<lparr>Plan = Some \<lparr>Id = StringValue ''planned'', ConfigurableAttribute = StringValue ''billing'',
                      Defaulted = StringNull\<rparr>\<rparr>
       \<lparr>Diagnostics = [], State = None\<rparr>
     = (\<lparr>Diagnostics = [],
         State = Some \<lparr>Id = StringValue ''example-id'',
                        ConfigurableAttribute = StringValue ''billing'', Defaulted = StringNull\<rparr>\<rparr>, [])"
  using Create_writes_placeholder_id
          [where fw = direct_tfsdk and r = "\<lparr>client = Some ()\<rparr>"
             and req = "\<lparr>Plan = Some \<lparr>Id = StringValue ''planned'',
                          ConfigurableAttribute = StringValue ''billing'', Defaulted = StringNull\<rparr>\<rparr>"
             and resp = "\<lparr>Diagnostics = [], State = None\<rparr>"
             and diags = "[]" and set_diags = "[]"
             and data = "\<lparr>Id = StringValue ''planned'',
                          ConfigurableAttribute = StringValue ''billing'', Defaulted = StringNull\<rparr>"
             and new_state = "Some \<lparr>Id = StringValue ''example-id'',
                          ConfigurableAttribute = StringValue ''billing'', Defaulted = StringNull\<rparr>"]
  by (simp add: direct_tfsdk_def)

text \<open>
  The claim as stated fails: a Create with a fully known plan against a null prior state sends
  no request at all, and the identifier in the resulting state is the local literal.
\<close>

theorem Create_remote_call_counterexample:
  "length (snd (NamespaceResource_Create direct_tfsdk \<lparr>client = Some ()\<rparr>
       \<lparr>Plan = Some \<lparr>Id = StringUnknown, ConfigurableAttribute = StringValue ''billing'',
                      Defaulted = StringValue ''''\<rparr>\<rparr>
       \<lparr>Diagnostics = [], State = None\<rparr>)) \<noteq> 1 \<and>
   fst (NamespaceResource_Create direct_tfsdk \<lparr>client = Some ()\<rparr>
       \<lparr>Plan = Some \<lparr>Id = StringUnknown, ConfigurableAttribute = StringValue ''billing'',
                      Defaulted = StringValue ''''\<rparr>\<rparr>
       \<lparr>Diagnostics = [], State = None\<rparr>)
     = \<lparr>Diagnostics = [],
        State = Some \<lparr>Id = StringValue ''example-id'',
                       ConfigurableAttribute = StringValue ''billing'',
                       Defaulted = StringValue ''''\<rparr>\<rparr>"
  by (simp add: NamespaceResource_Create_def direct_tfsdk_def Let_def)

text \<open>
  Claim C10. For every prior state that is read without error, Read sends no remote request and
  hands to the state of the response exactly the data it read from the prior state; the
  diagnostics of reading and of writing are appended.
\<close>

theorem Read_writes_back_prior_state:
  assumes "Get fw (ReqState req) = (diags, data)"
    and "\<not> HasError (Append (Diagnostics resp) diags)"
    and "Set fw (State resp) data = (set_diags, new_state)"
  shows "NamespaceResource_Read fw r req resp =
           (resp\<lparr>Diagnostics := Append (Append (Diagnostics resp) diags) set_diags,
                  State := new_state\<rparr>, [])"
  using assms by (simp add: NamespaceResource_Read_def Let_def)

theorem Read_writes_back_prior_state_witness:
  "NamespaceResource_Read direct_tfsdk \<lparr>client = Some ()\<rparr>
       \<lparr>ReqState = Some \<lparr>Id = StringValue ''example-id'',
                          ConfigurableAttribute = StringValue ''billing'', Defaulted = StringNull\<rparr>\<rparr>
       \<lparr>Diagnostics = [],
        State = Some \<lparr>Id = StringValue ''example-id'',
                       ConfigurableAttribute = StringValue ''billing'', Defaulted = StringNull\<rparr>\<rparr>
     = (\<lparr>Diagnostics = [],
         State = Some \<lparr>Id = StringValue ''example-id'',
                        ConfigurableAttribute = StringValue ''billing'', Defaulted = StringNull\<rparr>\<rparr>, [])"
  using Read_writes_back_prior_state
          [where fw = direct_tfsdk and r = "\<lparr>client = Some ()\<rparr>"
             and req = "\<lparr>ReqState = Some \<lparr>Id = StringValue ''example-id'',
                          ConfigurableAttribute = StringValue ''billing'', Defaulted = StringNull\<rparr>\<rparr>"
             and resp = "\<lparr>Diagnostics = [],
                          State = Some \<lparr>Id = StringValue ''example-id'',
                          ConfigurableAttribute = StringValue ''billing'', Defaulted = StringNull\<rparr>\<rparr>"
             and diags = "[]" and set_diags = "[]"
             and data = "\<lparr>Id = StringValue ''example-id'',
                          ConfigurableAttribute = StringValue ''billing'', Defaulted = StringNull\<rparr>"
             and new_state = "Some \<lparr>Id = StringValue ''example-id'',
                          ConfigurableAttribute = StringValue ''billing'', Defaulted = StringNull\<rparr>"]
  by (simp add: direct_tfsdk_def)

text \<open>
  Claim C5, as amended. For every Update whose plan is read without error, the handler sends no
  remote request and hands to the state of the response exactly the data of the plan: every
  field of the resulting state, the computed ones included, is the one the plan has. Nothing
  is taken from a remote response and nothing from the prior state.
\<close>

theorem Update_state_from_plan:
  assumes "Get fw (Plan req) = (diags, data)"
    and "\<not> HasError (Append (Diagnostics resp) diags)"
    and "Set fw (State resp) data = (set_diags, new_state)"
  shows "NamespaceResource_Update fw r req resp =
           (resp\<lparr>Diagnostics := Append (Append (Diagnostics resp) diags) set_diags,
                  State := new_state\<rparr>, [])"
  using assms by (simp add: NamespaceResource_Update_def Let_def)

theorem Update_state_from_plan_witness:
  "NamespaceResource_Update direct_tfsdk \<lparr>client = Some ()\<rparr>
       \<lparr>Plan = Some \<lparr>Id = StringValue ''planned'', ConfigurableAttribute = StringValue ''billing'',
                      Defaulted = StringValue ''new''\<rparr>\<rparr>
       \<lparr>Diagnostics = [],
        State = Some \<lparr>Id = StringValue ''example-id'',
                       ConfigurableAttribute = StringValue ''billing'', Defaulted = StringNull\<rparr>\<rparr>
     = (\<lparr>Diagnostics = [],
         State = Some \<lparr>Id = StringValue ''planned'', ConfigurableAttribute = StringValue ''billing'',
                        Defaulted = StringValue ''new''\<rparr>\<rparr>, [])"
  using Update_state_from_plan
          [where fw = direct_tfsdk and r = "\<lparr>client = Some ()\<rparr>"
             and req = "\<lparr>Plan = Some \<lparr>Id = StringValue ''planned'',
                          ConfigurableAttribute = StringValue ''billing'',
                          Defaulted = StringValue ''new''\<rparr>\<rparr>"
             and resp = "\<lparr>Diagnostics = [],
                          State = Some \<lparr>Id = StringValue ''example-id'',
                          ConfigurableAttribute = StringValue ''billing'', Defaulted = StringNull\<rparr>\<rparr>"
             and diags = "[]" and set_diags = "[]"
             and data = "\<lparr>Id = StringValue ''planned'',
                          ConfigurableAttribute = StringValue ''billing'',
                          Defaulted = StringValue ''new''\<rparr>"
             and new_state = "Some \<lparr>Id = StringValue ''planned'',
                          ConfigurableAttribute = StringValue ''billing'',
                          Defaulted = StringValue ''new''\<rparr>"]
  by (simp add: direct_tfsdk_def)

text \<open>
  The claim as stated fails: in an Update whose plan leaves the computed \<^verbatim>\<open>Id\<close> unknown,
  the handler sends no request, so there is no remote response, and the \<^verbatim>\<open>Id\<close> of the
  resulting state is the unknown value of the plan.
\<close>

theorem Update_computed_from_remote_counterexample:
  "NamespaceResource_Update direct_tfsdk \<lparr>client = Some ()\<rparr>
       \<lparr>Plan = Some \<lparr>Id = StringUnknown, ConfigurableAttribute = StringValue ''billing'',
                      Defaulted = StringValue ''new''\<rparr>\<rparr>
       \<lparr>Diagnostics = [],
        State = Some \<lparr>Id = StringValue ''example-id'',
                       ConfigurableAttribute = StringValue ''billing'', Defaulted = StringNull\<rparr>\<rparr>
     = (\<lparr>Diagnostics = [],
         State = Some \<lparr>Id = StringUnknown, ConfigurableAttribute = StringValue ''billing'',
                        Defaulted = StringValue ''new''\<rparr>\<rparr>, [])"
  by (simp add: NamespaceResource_Update_def direct_tfsdk_def Let_def)

text \<open>
  Claim C3, as amended. ImportState hands the path \<^verbatim>\<open>id\<close>, the request and the response to
  the framework's pass-through import and returns what that returns: it sends no remote
  request and adds no diagnostic of its own. A Read of the imported state sends no remote
  request either.
\<close>

theorem ImportState_passthrough_only:
  "NamespaceResource_ImportState passthrough r req resp = (passthrough ''id'' req resp, [])
   \<and> snd (NamespaceResource_Read fw r \<lparr>ReqState = State (passthrough ''id'' req resp)\<rparr> resp2) = []"
  by (simp add: NamespaceResource_ImportState_def Read_sends_nothing)

text \<open>
  The claim as stated fails: importing \<^verbatim>\<open>"ns-123"\<close> into a null state sends no request,
  reports nothing, and creates a state in which only \<^verbatim>\<open>Id\<close> is set; the Read that
  follows returns that state as it is, again without a request.
\<close>

theorem ImportState_remote_read_counterexample:
  "NamespaceResource_ImportState direct_ImportStatePassthroughID \<lparr>client = Some ()\<rparr>
       \<lparr>ID = ''ns-123''\<rparr> \<lparr>Diagnostics = [], State = None\<rparr>
     = (\<lparr>Diagnostics = [],
         State = Some \<lparr>Id = StringValue ''ns-123'', ConfigurableAttribute = StringNull,
                        Defaulted = StringNull\<rparr>\<rparr>, []) \<and>
   NamespaceResource_Read direct_tfsdk \<lparr>client = Some ()\<rparr>
       \<lparr>ReqState = Some \<lparr>Id = StringValue ''ns-123'', ConfigurableAttribute = StringNull,
                          Defaulted = StringNull\<rparr>\<rparr>
       \<lparr>Diagnostics = [],
        State = Some \<lparr>Id = StringValue ''ns-123'', ConfigurableAttribute = StringNull,
                       Defaulted = StringNull\<rparr>\<rparr>
     = (\<lparr>Diagnostics = [],
         State = Some \<lparr>Id = StringValue ''ns-123'', ConfigurableAttribute = StringNull,
                        Defaulted = StringNull\<rparr>\<rparr>, [])"
  by (simp add: NamespaceResource_ImportState_def direct_ImportStatePassthroughID_def
      NamespaceResource_Read_def direct_tfsdk_def null_model_def Let_def)

subsection \<open>The schema\<close>

text \<open>
  Claim C8. The schema of the namespace resource has twelve attributes with distinct names:
  the required input \<^verbatim>\<open>name\<close>, a string; the optional inputs \<^verbatim>\<open>description\<close> and
  \<^verbatim>\<open>owner_email\<close>, strings; and nine attributes that are computed and neither required
  nor optional, with the types listed.
\<close>

theorem Schema_attributes:
  "required_inputs NamespaceResource_Schema = [(''name'', StringType)] \<and>
   optional_inputs NamespaceResource_Schema =
     [(''description'', StringType), (''owner_email'', StringType)] \<and>
   computed_only_outputs NamespaceResource_Schema =
     [(''id'', StringType), (''state'', StringType), (''active_cluster_name'', StringType),
      (''clusters'', ListType StringType), (''history_archival_state'', StringType),
      (''visibility_archival_state'', StringType), (''is_global_namespace'', BoolType),
      (''failover_version'', NumberType), (''failover_history'', ListType StringType)] \<and>
   distinct (map fst (Attributes NamespaceResource_Schema)) \<and>
   length (Attributes NamespaceResource_Schema) = 12"
  by (simp add: required_inputs_def optional_inputs_def computed_only_outputs_def
      attributes_where_def NamespaceResource_Schema_def StringAttribute_def BoolAttribute_def
      NumberAttribute_def ListAttribute_def)

subsection \<open>Configuration of the provider\<close>

text \<open>
  Claim C7. When the configuration is read without error and \<^verbatim>\<open>host\<close> or \<^verbatim>\<open>port\<close> is
  unknown, the handler adds one attribute-scoped error for each unknown attribute, at the path
  of that attribute and different from the error for a missing value, and returns: the
  environment is not consulted, nothing is dialled, and the data for data sources and
  resources stay as they were.
\<close>

theorem Configure_unknown_values:
  assumes get: "ConfigGet (Config req) = (diags, config)"
    and ok: "\<not> HasError (Append (Diagnostics resp) diags)"
    and unk: "IsUnknown (Host config) \<or> IsUnknown (Port config)"
  shows "TemporalProvider_Configure env Dial ConfigGet req resp =
           resp\<lparr>Diagnostics := Append (Diagnostics resp) diags
                    @ (if IsUnknown (Host config) then [UnknownHostDiagnostic] else [])
                    @ (if IsUnknown (Port config) then [UnknownPortDiagnostic] else [])\<rparr>
         \<and> Path UnknownHostDiagnostic = Some ''host''
         \<and> Path UnknownPortDiagnostic = Some ''port''
         \<and> UnknownHostDiagnostic \<noteq> MissingHostDiagnostic
         \<and> UnknownPortDiagnostic \<noteq> MissingPortDiagnostic"
proof -
  have h: "UnknownHostDiagnostic \<notin> set (Append (Diagnostics resp) diags)"
    and p: "UnknownPortDiagnostic \<notin> set (Append (Diagnostics resp) diags)"
    using ok by (simp_all add: error_notin)
  consider (both) "IsUnknown (Host config)" "IsUnknown (Port config)"
    | (host) "IsUnknown (Host config)" "\<not> IsUnknown (Port config)"
    | (port) "\<not> IsUnknown (Host config)" "IsUnknown (Port config)"
    using unk by blast
  then have "TemporalProvider_Configure env Dial ConfigGet req resp =
           resp\<lparr>Diagnostics := Append (Diagnostics resp) diags
                    @ (if IsUnknown (Host config) then [UnknownHostDiagnostic] else [])
                    @ (if IsUnknown (Port config) then [UnknownPortDiagnostic] else [])\<rparr>"
  proof cases
    case both
    then show ?thesis using get ok h p Unknown_host_port_distinct
      by (simp add: TemporalProvider_Configure_def Let_def HasError_append)
  next
    case host
    then show ?thesis using get ok h p
      by (simp add: TemporalProvider_Configure_def Let_def HasError_append)
  next
    case port
    then show ?thesis using get ok h p
      by (simp add: TemporalProvider_Configure_def Let_def HasError_append)
  qed
  then show ?thesis
    by (simp add: Unknown_Missing_host_distinct Unknown_Missing_port_distinct)
qed

theorem Configure_unknown_values_witness:
  "TemporalProvider_Configure Map.empty (\<lambda>e. Inr e) (\<lambda>c. ([], c))
       \<lparr>Config = \<lparr>Host = StringUnknown, Port = StringValue ''7233''\<rparr>\<rparr>
       \<lparr>Diagnostics = [], DataSourceData = None, ResourceData = None\<rparr>
     = \<lparr>Diagnostics = [UnknownHostDiagnostic], DataSourceData = None, ResourceData = None\<rparr>"
  using Configure_unknown_values
          [where ConfigGet = "\<lambda>c. ([], c)" and env = Map.empty and Dial = "\<lambda>e. Inr e"
             and req = "\<lparr>Config = \<lparr>Host = StringUnknown, Port = StringValue ''7233''\<rparr>\<rparr>"
             and resp = "\<lparr>Diagnostics = [], DataSourceData = None, ResourceData = None\<rparr>"
             and diags = "[]" and config = "\<lparr>Host = StringUnknown, Port = StringValue ''7233''\<rparr>"]
  by simp



end
